theory Spec2Isabelle
  imports Main
begin

section \<open>Python values, settings and the field\<close>

text \<open>
  The values that reach the field's methods. A dict is the one an hstore column holds:
  string keys, each value a string or None, in insertion order. \<open>PyInt\<close> stands for a
  flat value that is neither text, dict nor list.
\<close>

datatype pyval =
    PyNone
  | PyStr string
  | PyInt int
  | PyDict "(string \<times> string option) list"
  | PyList "pyval list"
  | PyLocalizedValue "(string \<times> string option) list"

text \<open>
  The exceptions of \<open>field.py\<close>. \<open>IntegrityError\<close> carries the two arguments
  that \<open>validate\<close> formats into its message: the field's name and the language code.
  \<open>RecursionError\<close> is what \<open>json.loads\<close> raises, instead of \<open>JSONDecodeError\<close>,
  on a string nested deeper than the interpreter's recursion limit.
\<close>

datatype py_error =
    IntegrityError string string
  | AttributeError
  | JSONDecodeError
  | RecursionError

text \<open>\<open>django.conf.settings\<close>, as far as \<open>field.py\<close> reads it.\<close>

record settings =
  LANGUAGE_CODE :: string
  LANGUAGES :: "(string \<times> string) list"
  LOCALIZED_FIELDS_EXPERIMENTAL :: bool

text \<open>The attributes of a \<open>LocalizedField\<close> instance that its methods read.\<close>

record LocalizedField =
  name :: string
  null :: bool

text \<open>\<open>src/settings.py\<close>; it does not set \<open>LOCALIZED_FIELDS_EXPERIMENTAL\<close>, which
  \<open>from_db_value\<close> then reads as False.\<close>

definition test_settings :: settings where
  "test_settings =
     \<lparr>LANGUAGE_CODE = ''en'',
      LANGUAGES = [(''en'', ''English''), (''ro'', ''Romanian''), (''nl'', ''Dutch'')],
      LOCALIZED_FIELDS_EXPERIMENTAL = False\<rparr>"

text \<open>The same settings with \<open>LOCALIZED_FIELDS_EXPERIMENTAL = True\<close>.\<close>

definition experimental_settings :: settings where
  "experimental_settings = test_settings\<lparr>LOCALIZED_FIELDS_EXPERIMENTAL := True\<rparr>"

text \<open>Python's truth value: None, the empty string, zero and empty containers are false.\<close>

fun truthy :: "pyval \<Rightarrow> bool" where
  "truthy PyNone = False"
| "truthy (PyStr s) = (s \<noteq> [])"
| "truthy (PyInt n) = (n \<noteq> 0)"
| "truthy (PyDict d) = (d \<noteq> [])"
| "truthy (PyList xs) = (xs \<noteq> [])"
| "truthy (PyLocalizedValue entries) = (entries \<noteq> [])"

section \<open>The value container\<close>

text \<open>\<open>d.get(key)\<close> on a dict: the value, None when the key is missing.\<close>

definition dict_get :: "(string \<times> string option) list \<Rightarrow> string \<Rightarrow> string option" where
  "dict_get d key = (case map_of d key of None \<Rightarrow> None | Some v \<Rightarrow> v)"

text \<open>The key-value pairs of a mapping; a value that is no mapping has none.\<close>

fun items :: "pyval \<Rightarrow> (string \<times> string option) list" where
  "items (PyDict d) = d"
| "items (PyLocalizedValue entries) = entries"
| "items _ = []"

text \<open>
  Modelled from the spec: \<open>value.py\<close>, with the class \<open>LocalizedValue\<close>, is not among
  the sources. The spec describes the container as a mapping from language code (string)
  to text value (string or null), whose keys correspond to the configured list of
  languages, one entry per configured language, mutated via attribute assignment. So
  \<open>PyLocalizedValue\<close> holds the entries; the container has a mapping's truth value
  (\<open>truthy\<close> above) and is an instance of dict (\<open>isinstance_dict\<close> below); and the
  constructor makes one entry per configured language, taken from the mapping it is
  given and null where the mapping has none. The spec says nothing of a constructor
  argument that is no mapping: it contributes no entry here.
\<close>

definition LocalizedValue :: "settings \<Rightarrow> pyval \<Rightarrow> pyval" where
  "LocalizedValue st keys =
     PyLocalizedValue
       (map (\<lambda>(lang_code, _). (lang_code, dict_get (items keys) lang_code)) (LANGUAGES st))"

text \<open>
  Modelled from the spec: \<open>LocalizedValue()\<close>, the constructor of the missing class
  without an argument, gives the empty container: one entry per configured language,
  each null.
\<close>

definition LocalizedValue_empty :: "settings \<Rightarrow> pyval" where
  "LocalizedValue_empty st = LocalizedValue st PyNone"

fun isinstance_LocalizedValue :: "pyval \<Rightarrow> bool" where
  "isinstance_LocalizedValue (PyLocalizedValue _) = True"
| "isinstance_LocalizedValue _ = False"

fun isinstance_dict :: "pyval \<Rightarrow> bool" where
  "isinstance_dict (PyDict _) = True"
| "isinstance_dict (PyLocalizedValue _) = True"
| "isinstance_dict _ = False"

fun isinstance_list :: "pyval \<Rightarrow> bool" where
  "isinstance_list (PyList _) = True"
| "isinstance_list _ = False"

text \<open>
  Modelled from the spec: \<open>value.get(lang_code)\<close>, a method of the missing class
  \<open>LocalizedValue\<close>, is the mapping's lookup: the entry, None when there is none.
\<close>

definition LocalizedValue_get :: "pyval \<Rightarrow> string \<Rightarrow> string option" where
  "LocalizedValue_get value lang_code = dict_get (items value) lang_code"

text \<open>
  Modelled from the spec: \<open>getattr(value, code)\<close> reads an attribute of the missing
  class \<open>LocalizedValue\<close>, whose entries are its attributes. An attribute that is not
  there raises, as any language code does on None.
\<close>

fun getattr :: "pyval \<Rightarrow> string \<Rightarrow> py_error + string option" where
  "getattr (PyLocalizedValue entries) code =
     (case map_of entries code of None \<Rightarrow> Inl AttributeError | Some v \<Rightarrow> Inr v)"
| "getattr _ code = Inl AttributeError"

text \<open>
  Modelled from the spec: \<open>value.__dict__\<close> of the missing class \<open>LocalizedValue\<close> is
  the dict of its attributes, which are its entries.
\<close>

fun dunder_dict :: "pyval \<Rightarrow> py_error + pyval" where
  "dunder_dict (PyLocalizedValue entries) = Inr (PyDict entries)"
| "dunder_dict _ = Inl AttributeError"

text \<open>
  Modelled from the spec: the invariant of the missing class \<open>LocalizedValue\<close>, that
  the keys of a container are the configured languages, in no particular order.
\<close>

definition one_entry_per_language :: "settings \<Rightarrow> pyval \<Rightarrow> bool" where
  "one_entry_per_language st value =
     (isinstance_LocalizedValue value \<and>
      set (map fst (items value)) = set (map fst (LANGUAGES st)))"

section \<open>The base class\<close>

text \<open>
  \<open>HStoreField\<close> is the framework's. Its \<open>to_python\<close> deserializes a string with
  \<open>json.loads\<close> and hands any other value back; \<open>json_loads\<close> is a parameter.
  Its \<open>get_prep_value\<close> turns the keys and the non-None values of a dict into strings,
  which they are already here, and hands None back.
\<close>

definition HStoreField_to_python ::
  "(string \<Rightarrow> py_error + pyval) \<Rightarrow> pyval \<Rightarrow> py_error + pyval" where
  "HStoreField_to_python json_loads value =
     (case value of PyStr s \<Rightarrow> json_loads s | _ \<Rightarrow> Inr value)"

text \<open>
  \<open>json.loads\<close> on the strings that are opening brackets only, such as
  \<open>'[' * 100000\<close>: the decoder recurses once per bracket, so a string of more
  brackets than the recursion limit (1000 by default) raises \<open>RecursionError\<close>, and a
  shorter one, an array that is never closed, raises \<open>JSONDecodeError\<close>. No other
  string is given to this function below; it answers \<open>JSONDecodeError\<close> on them.
\<close>

definition json_loads_brackets :: "string \<Rightarrow> py_error + pyval" where
  "json_loads_brackets s =
     (if s = replicate (length s) (CHR ''['') \<and> 1000 < length s then Inl RecursionError
      else Inl JSONDecodeError)"

definition HStoreField_get_prep_value :: "pyval \<Rightarrow> pyval" where
  "HStoreField_get_prep_value value = value"

section \<open>LocalizedField\<close>

text \<open>\<open>validate\<close>, lines 187 to 212.\<close>

definition validate :: "settings \<Rightarrow> LocalizedField \<Rightarrow> pyval \<Rightarrow> py_error + unit" where
  "validate st self value =
     (if null self then Inr ()
      else
        (case getattr value (LANGUAGE_CODE st) of
           Inl e \<Rightarrow> Inl e
         | Inr primary_lang_val \<Rightarrow>
             if primary_lang_val = None
             then Inl (IntegrityError (name self) (LANGUAGE_CODE st))
             else Inr ()))"

text \<open>A result that is a raised \<open>IntegrityError\<close>.\<close>

fun raises_IntegrityError :: "py_error + 'a \<Rightarrow> bool" where
  "raises_IntegrityError (Inl (IntegrityError _ _)) = True"
| "raises_IntegrityError _ = False"

text \<open>The loop of \<open>clean\<close>, lines 171 to 178: it leaves at the first language that is not None.\<close>

fun is_all_null :: "pyval \<Rightarrow> (string \<times> string) list \<Rightarrow> bool" where
  "is_all_null value [] = True"
| "is_all_null value ((lang_code, _) # rest) =
     (if LocalizedValue_get value lang_code \<noteq> None then False else is_all_null value rest)"

text \<open>\<open>clean\<close>, lines 151 to 185.\<close>

definition clean :: "settings \<Rightarrow> LocalizedField \<Rightarrow> pyval \<Rightarrow> pyval" where
  "clean st self value =
     (if \<not> truthy value \<or> \<not> isinstance_LocalizedValue value then PyNone
      else if is_all_null value (LANGUAGES st) \<and> null self then PyNone
      else value)"

text \<open>\<open>get_prep_value\<close>, lines 119 to 149.\<close>

definition get_prep_value :: "settings \<Rightarrow> LocalizedField \<Rightarrow> pyval \<Rightarrow> py_error + pyval" where
  "get_prep_value st self value0 =
     (let value = (if \<not> isinstance_LocalizedValue value0 \<and> truthy value0 then PyNone else value0)
      in
        (case
           (if truthy value
            then
              (let cleaned_value = clean st self value
               in case validate st self cleaned_value of
                    Inl e \<Rightarrow> Inl e
                  | Inr _ \<Rightarrow> Inr cleaned_value)
            else Inr value)
         of
           Inl e \<Rightarrow> Inl e
         | Inr cleaned_value \<Rightarrow>
             if truthy cleaned_value
             then
               (case dunder_dict cleaned_value of
                  Inl e \<Rightarrow> Inl e
                | Inr d \<Rightarrow> Inr (HStoreField_get_prep_value d))
             else Inr (HStoreField_get_prep_value PyNone)))"

text \<open>The \<open>try\<close> of \<open>to_python\<close>, lines 109 to 112: only \<open>json.JSONDecodeError\<close> is caught.\<close>

definition try_deserialize ::
  "(string \<Rightarrow> py_error + pyval) \<Rightarrow> pyval \<Rightarrow> py_error + pyval" where
  "try_deserialize json_loads value =
     (case HStoreField_to_python json_loads value of
        Inl JSONDecodeError \<Rightarrow> Inr value
      | Inl e \<Rightarrow> Inl e
      | Inr v \<Rightarrow> Inr v)"

text \<open>\<open>to_python\<close>, lines 93 to 117.\<close>

definition to_python ::
  "settings \<Rightarrow> (string \<Rightarrow> py_error + pyval) \<Rightarrow> pyval \<Rightarrow> py_error + pyval" where
  "to_python st json_loads value =
     (case try_deserialize json_loads value of
        Inl e \<Rightarrow> Inl e
      | Inr deserialized_value \<Rightarrow>
          if \<not> truthy deserialized_value then Inr (LocalizedValue_empty st)
          else Inr (LocalizedValue st deserialized_value))"

text \<open>The loop body of \<open>from_db_value\<close>, lines 75 to 81.\<close>

definition wrap_inner :: "settings \<Rightarrow> pyval \<Rightarrow> pyval" where
  "wrap_inner st inner_val =
     (if isinstance_dict inner_val
      then (if inner_val = PyNone then PyNone else LocalizedValue st inner_val)
      else inner_val)"

text \<open>\<open>from_db_value\<close>, lines 48 to 91.\<close>

definition from_db_value :: "settings \<Rightarrow> pyval \<Rightarrow> pyval" where
  "from_db_value st value =
     (if \<not> truthy value
      then (if LOCALIZED_FIELDS_EXPERIMENTAL st then PyNone else LocalizedValue_empty st)
      else
        (case value of
           PyList xs \<Rightarrow> PyList (map (wrap_inner st) xs)
         | _ \<Rightarrow> if \<not> isinstance_dict value then value else LocalizedValue st value))"

section \<open>Helper lemmas\<close>

lemma is_all_null_iff:
  "is_all_null v langs \<longleftrightarrow>
     (\<forall>lang_code \<in> set (map fst langs). LocalizedValue_get v lang_code = None)"
  by (induction langs) (auto split: if_splits)

lemma map_of_entries:
  "map_of (map (\<lambda>(lang_code, _). (lang_code, f lang_code)) langs) k =
     (if k \<in> set (map fst langs) then Some (f k) else None)"
  by (induction langs) (auto split: if_splits)

lemma map_of_same_keys:
  assumes "set (map fst e) = set (map fst langs)"
  shows "map_of (map (\<lambda>(lang_code, _). (lang_code, dict_get e lang_code)) langs) = map_of e"
proof
  fix k
  show "map_of (map (\<lambda>(lang_code, _). (lang_code, dict_get e lang_code)) langs) k = map_of e k"
  proof (cases "k \<in> set (map fst langs)")
    case True
    with assms have "k \<in> fst ` set e" by simp
    then obtain x where "map_of e k = Some x"
      using map_of_eq_None_iff [of e k] by (cases "map_of e k") auto
    with True show ?thesis by (simp add: map_of_entries dict_get_def)
  next
    case False
    with assms have "k \<notin> fst ` set e" by simp
    then have "map_of e k = None" by (simp add: map_of_eq_None_iff)
    with False show ?thesis by (simp add: map_of_entries)
  qed
qed

text \<open>The constructor establishes the data model's invariant.\<close>

lemma LocalizedValue_one_entry_per_language:
  "one_entry_per_language st (LocalizedValue st keys)"
  by (auto simp: one_entry_per_language_def LocalizedValue_def comp_def case_prod_unfold)

lemma LocalizedValue_empty_entries:
  "LocalizedValue_empty st =
     PyLocalizedValue (map (\<lambda>(lang_code, _). (lang_code, None)) (LANGUAGES st))"
  by (simp add: LocalizedValue_empty_def LocalizedValue_def dict_get_def)

lemma get_prep_value_LocalizedValue:
  assumes "get_prep_value st self (PyLocalizedValue e) = Inr (PyDict d)"
  shows "d = e"
  using assms
  by (auto simp: get_prep_value_def Let_def clean_def HStoreField_get_prep_value_def
      split: if_splits sum.splits)

lemma from_db_value_nonempty_list:
  "xs \<noteq> [] \<Longrightarrow>
   from_db_value st (PyList xs) =
     PyList (map (\<lambda>inner_val. if isinstance_dict inner_val then LocalizedValue st inner_val
                              else inner_val) xs)"
  by (auto simp: from_db_value_def wrap_inner_def)

section \<open>Validation\<close>

text \<open>
  C1. For every LocalizedValue, \<open>validate\<close> raises IntegrityError if and only if the field
  is not nullable and the value's attribute for the primary language code is None; on a
  nullable field \<open>validate\<close> raises nothing, whatever the value.
\<close>

theorem validate_raises_iff:
  "(raises_IntegrityError (validate st self (PyLocalizedValue entries)) \<longleftrightarrow>
      \<not> null self \<and> getattr (PyLocalizedValue entries) (LANGUAGE_CODE st) = Inr None)
   \<and> (null self \<longrightarrow> (\<forall>v. validate st self v = Inr ()))"
  by (auto simp: validate_def split: option.splits)

theorem validate_raises_iff_witness:
  "raises_IntegrityError
     (validate test_settings \<lparr>name = ''title'', null = False\<rparr>
        (PyLocalizedValue [(''en'', None), (''ro'', Some ''salut''), (''nl'', None)]))
   \<and> validate test_settings \<lparr>name = ''title'', null = True\<rparr>
        (PyLocalizedValue [(''en'', None), (''ro'', Some ''salut''), (''nl'', None)]) = Inr ()"
  using validate_raises_iff
    [of test_settings "\<lparr>name = ''title'', null = False\<rparr>"
        "[(''en'', None), (''ro'', Some ''salut''), (''nl'', None)]"]
    validate_raises_iff
    [of test_settings "\<lparr>name = ''title'', null = True\<rparr>"
        "[(''en'', None), (''ro'', Some ''salut''), (''nl'', None)]"]
  by (simp add: test_settings_def)

text \<open>
  C7. Validation looks at the primary language only: two LocalizedValues with the same
  attribute for the primary language code get the same outcome from \<open>validate\<close> on the
  same field, so one raises if and only if the other does.
\<close>

theorem validate_primary_language_only:
  assumes "getattr (PyLocalizedValue a) (LANGUAGE_CODE st) =
           getattr (PyLocalizedValue b) (LANGUAGE_CODE st)"
  shows "validate st self (PyLocalizedValue a) = validate st self (PyLocalizedValue b)
         \<and> ((\<exists>err. validate st self (PyLocalizedValue a) = Inl err) \<longleftrightarrow>
            (\<exists>err. validate st self (PyLocalizedValue b) = Inl err))"
  using assms by (simp add: validate_def)

theorem validate_primary_language_only_witness:
  "validate test_settings \<lparr>name = ''title'', null = False\<rparr>
     (PyLocalizedValue [(''en'', None), (''ro'', None), (''nl'', None)]) =
   validate test_settings \<lparr>name = ''title'', null = False\<rparr>
     (PyLocalizedValue [(''en'', None), (''ro'', Some ''salut''), (''nl'', Some ''hallo'')])"
proof -
  have same:
    "getattr (PyLocalizedValue [(''en'', None), (''ro'', None), (''nl'', None)])
       (LANGUAGE_CODE test_settings) =
     getattr (PyLocalizedValue [(''en'', None), (''ro'', Some ''salut''), (''nl'', Some ''hallo'')])
       (LANGUAGE_CODE test_settings)"
    by (simp add: test_settings_def)
  from validate_primary_language_only [OF same] show ?thesis by blast
qed

section \<open>Cleaning\<close>

text \<open>
  C8. Only None counts as absent. On a nullable field \<open>clean\<close> returns None for a
  LocalizedValue if and only if every configured language code maps to None; a value in
  which some configured language maps to the empty string is returned unchanged; and on
  a field that is not nullable a primary-language value that is the empty string passes
  \<open>validate\<close>.
\<close>

theorem clean_only_None_is_absent:
  "(null self \<longrightarrow>
      (clean st self (PyLocalizedValue e) = PyNone \<longleftrightarrow>
         (\<forall>lang_code \<in> set (map fst (LANGUAGES st)).
            LocalizedValue_get (PyLocalizedValue e) lang_code = None)))
   \<and> ((\<exists>lang_code \<in> set (map fst (LANGUAGES st)).
          LocalizedValue_get (PyLocalizedValue e) lang_code = Some '''') \<longrightarrow>
        clean st self (PyLocalizedValue e) = PyLocalizedValue e)
   \<and> (\<not> null self \<and> getattr (PyLocalizedValue e) (LANGUAGE_CODE st) = Inr (Some '''') \<longrightarrow>
        validate st self (PyLocalizedValue e) = Inr ())"
proof (intro conjI impI)
  assume "null self"
  then show "clean st self (PyLocalizedValue e) = PyNone \<longleftrightarrow>
         (\<forall>lang_code \<in> set (map fst (LANGUAGES st)).
            LocalizedValue_get (PyLocalizedValue e) lang_code = None)"
    by (auto simp: clean_def is_all_null_iff LocalizedValue_get_def dict_get_def)
next
  assume "\<exists>lang_code \<in> set (map fst (LANGUAGES st)).
          LocalizedValue_get (PyLocalizedValue e) lang_code = Some ''''"
  then show "clean st self (PyLocalizedValue e) = PyLocalizedValue e"
    by (auto simp: clean_def is_all_null_iff LocalizedValue_get_def dict_get_def)
next
  assume "\<not> null self \<and> getattr (PyLocalizedValue e) (LANGUAGE_CODE st) = Inr (Some '''')"
  then show "validate st self (PyLocalizedValue e) = Inr ()"
    by (simp add: validate_def)
qed

theorem clean_only_None_is_absent_witness:
  "clean test_settings \<lparr>name = ''title'', null = True\<rparr>
     (PyLocalizedValue [(''en'', Some ''''), (''ro'', None), (''nl'', None)]) =
     PyLocalizedValue [(''en'', Some ''''), (''ro'', None), (''nl'', None)]
   \<and> clean test_settings \<lparr>name = ''title'', null = True\<rparr>
       (PyLocalizedValue [(''en'', None), (''ro'', None), (''nl'', None)]) = PyNone
   \<and> validate test_settings \<lparr>name = ''title'', null = False\<rparr>
       (PyLocalizedValue [(''en'', Some ''''), (''ro'', None), (''nl'', None)]) = Inr ()"
  using clean_only_None_is_absent
    [of "\<lparr>name = ''title'', null = True\<rparr>" test_settings
        "[(''en'', Some ''''), (''ro'', None), (''nl'', None)]"]
    clean_only_None_is_absent
    [of "\<lparr>name = ''title'', null = True\<rparr>" test_settings
        "[(''en'', None), (''ro'', None), (''nl'', None)]"]
    clean_only_None_is_absent
    [of "\<lparr>name = ''title'', null = False\<rparr>" test_settings
        "[(''en'', Some ''''), (''ro'', None), (''nl'', None)]"]
  by (simp add: test_settings_def LocalizedValue_get_def dict_get_def)

text \<open>
  C10. \<open>clean\<close> is idempotent and does not change its argument: cleaning a cleaned value
  gives the cleaned value, and the result is either None or the very value given.
\<close>

theorem clean_idempotent:
  "clean st self (clean st self v) = clean st self v
   \<and> (clean st self v = PyNone \<or> clean st self v = v)"
  by (simp add: clean_def)

theorem clean_idempotent_witness:
  "clean test_settings \<lparr>name = ''title'', null = True\<rparr>
     (clean test_settings \<lparr>name = ''title'', null = True\<rparr>
        (PyLocalizedValue [(''en'', Some ''hello''), (''ro'', None), (''nl'', None)])) =
   clean test_settings \<lparr>name = ''title'', null = True\<rparr>
     (PyLocalizedValue [(''en'', Some ''hello''), (''ro'', None), (''nl'', None)])"
  using clean_idempotent
    [of test_settings "\<lparr>name = ''title'', null = True\<rparr>"
        "PyLocalizedValue [(''en'', Some ''hello''), (''ro'', None), (''nl'', None)]"]
  by simp

section \<open>Preparing a value for the database\<close>

text \<open>
  C2. On a field that does not allow null, \<open>get_prep_value\<close> should either raise
  IntegrityError or pass on a dict whose primary-language entry is not None, also for a
  truthy input that is not a LocalizedValue, which the docstring says is treated as an
  empty LocalizedValue on which the validation fails. The code instead replaces such an
  input by None, skips \<open>clean\<close> and \<open>validate\<close>, and passes None on: evaluated here
  at the string \<open>illegal\<close> with the settings of \<open>src/settings.py\<close>.
\<close>

theorem get_prep_value_illegal_value_not_validated:
  "get_prep_value test_settings \<lparr>name = ''title'', null = False\<rparr> (PyStr ''illegal'') =
     Inr PyNone"
  by (simp add: get_prep_value_def HStoreField_get_prep_value_def)

text \<open>
  C6. One entry per configured language in the stored representation: when
  \<open>get_prep_value\<close> serializes a LocalizedValue to a dict, the dict is the value's
  entries and has a key for every language of the configured list.
\<close>

theorem get_prep_value_key_per_language:
  assumes "one_entry_per_language st v"
      and "get_prep_value st self v = Inr (PyDict d)"
  shows "d = items v
         \<and> (\<forall>lang_code \<in> set (map fst (LANGUAGES st)). lang_code \<in> set (map fst d))"
proof -
  from assms(1) obtain e where v: "v = PyLocalizedValue e"
    and keys: "set (map fst e) = set (map fst (LANGUAGES st))"
    by (cases v) (auto simp: one_entry_per_language_def)
  from assms(2) v have "d = e" by (simp add: get_prep_value_LocalizedValue)
  with v keys show ?thesis by simp
qed

theorem get_prep_value_key_per_language_witness:
  "one_entry_per_language test_settings
     (PyLocalizedValue [(''en'', Some ''hello''), (''ro'', None), (''nl'', None)])
   \<and> get_prep_value test_settings \<lparr>name = ''title'', null = False\<rparr>
       (PyLocalizedValue [(''en'', Some ''hello''), (''ro'', None), (''nl'', None)]) =
       Inr (PyDict [(''en'', Some ''hello''), (''ro'', None), (''nl'', None)])
   \<and> ''en'' \<in> set (map fst [(''en'', Some ''hello''), (''ro'', None), (''nl'', None)])
   \<and> ''ro'' \<in> set (map fst [(''en'', Some ''hello''), (''ro'', None), (''nl'', None)])
   \<and> ''nl'' \<in> set (map fst [(''en'', Some ''hello''), (''ro'', None), (''nl'', None)])"
proof -
  have inv: "one_entry_per_language test_settings
     (PyLocalizedValue [(''en'', Some ''hello''), (''ro'', None), (''nl'', None)])"
    by (simp add: one_entry_per_language_def test_settings_def)
  have run: "get_prep_value test_settings \<lparr>name = ''title'', null = False\<rparr>
       (PyLocalizedValue [(''en'', Some ''hello''), (''ro'', None), (''nl'', None)]) =
       Inr (PyDict [(''en'', Some ''hello''), (''ro'', None), (''nl'', None)])"
    by (simp add: get_prep_value_def clean_def validate_def HStoreField_get_prep_value_def
        test_settings_def LocalizedValue_get_def dict_get_def)
  from get_prep_value_key_per_language [OF inv run] inv run show ?thesis
    by (simp add: test_settings_def)
qed

section \<open>Round trip\<close>

text \<open>
  C3. Round trip between the stored and the in-memory representation: for a
  LocalizedValue in which some configured language is not None (and, on a field that is
  not nullable, the primary-language value is not None), \<open>get_prep_value\<close> returns a
  value on which \<open>to_python\<close> returns a LocalizedValue that is equal to the original
  as a mapping from language code to text.
\<close>

theorem to_python_get_prep_value_roundtrip:
  assumes "one_entry_per_language st v"
      and "\<exists>lang_code \<in> set (map fst (LANGUAGES st)). LocalizedValue_get v lang_code \<noteq> None"
      and "\<not> null self \<longrightarrow> (\<exists>text. getattr v (LANGUAGE_CODE st) = Inr (Some text))"
  shows "\<exists>d w. get_prep_value st self v = Inr d \<and> to_python st json_loads d = Inr w
           \<and> isinstance_LocalizedValue w \<and> map_of (items w) = map_of (items v)"
proof -
  from assms(1) obtain e where v: "v = PyLocalizedValue e"
    and keys: "set (map fst e) = set (map fst (LANGUAGES st))"
    by (cases v) (auto simp: one_entry_per_language_def)
  from assms(2) v have ne: "e \<noteq> []" and nall: "\<not> is_all_null v (LANGUAGES st)"
    by (auto simp: is_all_null_iff LocalizedValue_get_def dict_get_def)
  have cl: "clean st self v = v"
    using v ne nall by (simp add: clean_def)
  have va: "validate st self v = Inr ()"
    using assms(3) by (auto simp: validate_def)
  have g: "get_prep_value st self v = Inr (PyDict e)"
    using v ne cl va by (simp add: get_prep_value_def HStoreField_get_prep_value_def)
  have t: "to_python st json_loads (PyDict e) = Inr (LocalizedValue st (PyDict e))"
    using ne by (simp add: to_python_def try_deserialize_def HStoreField_to_python_def)
  have m: "map_of (items (LocalizedValue st (PyDict e))) = map_of e"
    using keys by (simp add: LocalizedValue_def map_of_same_keys)
  show ?thesis
    using g t m v by (simp add: LocalizedValue_def)
qed

theorem to_python_get_prep_value_roundtrip_witness:
  "\<exists>d w. get_prep_value test_settings \<lparr>name = ''title'', null = False\<rparr>
            (PyLocalizedValue [(''en'', Some ''hello''), (''ro'', None), (''nl'', Some '''')]) = Inr d
         \<and> to_python test_settings (\<lambda>s. Inl JSONDecodeError) d = Inr w
         \<and> isinstance_LocalizedValue w
         \<and> map_of (items w) =
           map_of (items (PyLocalizedValue
                            [(''en'', Some ''hello''), (''ro'', None), (''nl'', Some '''')]))"
proof -
  have inv: "one_entry_per_language test_settings
     (PyLocalizedValue [(''en'', Some ''hello''), (''ro'', None), (''nl'', Some '''')])"
    by (simp add: one_entry_per_language_def test_settings_def)
  have some: "\<exists>lang_code \<in> set (map fst (LANGUAGES test_settings)).
     LocalizedValue_get
       (PyLocalizedValue [(''en'', Some ''hello''), (''ro'', None), (''nl'', Some '''')])
       lang_code \<noteq> None"
    by (simp add: test_settings_def LocalizedValue_get_def dict_get_def)
  have primary: "\<not> null \<lparr>name = ''title'', null = False\<rparr> \<longrightarrow>
     (\<exists>text. getattr
        (PyLocalizedValue [(''en'', Some ''hello''), (''ro'', None), (''nl'', Some '''')])
        (LANGUAGE_CODE test_settings) = Inr (Some text))"
    by (simp add: test_settings_def)
  from to_python_get_prep_value_roundtrip [OF inv some primary] show ?thesis .
qed

section \<open>Reading a value\<close>

text \<open>
  C4, as the code has it. \<open>to_python\<close> never propagates a JSON decoding error. It
  returns a LocalizedValue for every input that is not a string (a dict, None) and for
  every string on which \<open>json.loads\<close> succeeds or raises \<open>JSONDecodeError\<close>; any
  other exception of the deserialization is not caught and propagates. When the input
  after the attempted deserialization is falsy, the result is the empty LocalizedValue.
\<close>

theorem to_python_returns_container:
  "to_python st json_loads v \<noteq> Inl JSONDecodeError
   \<and> ((\<forall>s. v \<noteq> PyStr s) \<longrightarrow>
        (\<exists>entries. to_python st json_loads v = Inr (PyLocalizedValue entries)))
   \<and> ((\<forall>err. HStoreField_to_python json_loads v = Inl err \<longrightarrow> err = JSONDecodeError) \<longrightarrow>
        (\<exists>entries. to_python st json_loads v = Inr (PyLocalizedValue entries)))
   \<and> (\<forall>err. HStoreField_to_python json_loads v = Inl err \<and> err \<noteq> JSONDecodeError \<longrightarrow>
          to_python st json_loads v = Inl err)
   \<and> (\<forall>deserialized_value.
         try_deserialize json_loads v = Inr deserialized_value \<and> \<not> truthy deserialized_value \<longrightarrow>
         to_python st json_loads v = Inr (LocalizedValue_empty st))"
proof (intro conjI impI allI)
  show "to_python st json_loads v \<noteq> Inl JSONDecodeError"
    by (auto simp: to_python_def try_deserialize_def HStoreField_to_python_def
        split: sum.splits py_error.splits pyval.splits)
next
  assume "\<forall>s. v \<noteq> PyStr s"
  then show "\<exists>entries. to_python st json_loads v = Inr (PyLocalizedValue entries)"
    by (cases v)
      (simp_all add: to_python_def try_deserialize_def HStoreField_to_python_def
        LocalizedValue_empty_def LocalizedValue_def)
next
  assume only: "\<forall>err. HStoreField_to_python json_loads v = Inl err \<longrightarrow> err = JSONDecodeError"
  show "\<exists>entries. to_python st json_loads v = Inr (PyLocalizedValue entries)"
  proof (cases "HStoreField_to_python json_loads v")
    case (Inl err)
    with only have "err = JSONDecodeError" by simp
    with Inl show ?thesis
      by (simp add: to_python_def try_deserialize_def LocalizedValue_empty_def
          LocalizedValue_def)
  next
    case (Inr w)
    then show ?thesis
      by (simp add: to_python_def try_deserialize_def LocalizedValue_empty_def
          LocalizedValue_def)
  qed
next
  fix err
  assume "HStoreField_to_python json_loads v = Inl err \<and> err \<noteq> JSONDecodeError"
  then show "to_python st json_loads v = Inl err"
    by (cases err) (simp_all add: to_python_def try_deserialize_def)
next
  fix deserialized_value
  assume "try_deserialize json_loads v = Inr deserialized_value \<and> \<not> truthy deserialized_value"
  then show "to_python st json_loads v = Inr (LocalizedValue_empty st)"
    by (simp add: to_python_def)
qed

theorem to_python_returns_container_witness:
  "to_python test_settings json_loads_brackets (PyDict []) =
     Inr (LocalizedValue_empty test_settings)
   \<and> (\<exists>entries. to_python test_settings json_loads_brackets (PyDict [(''en'', Some ''hello'')]) =
          Inr (PyLocalizedValue entries))
   \<and> (\<exists>entries. to_python test_settings json_loads_brackets (PyStr ''[[['') =
          Inr (PyLocalizedValue entries))
   \<and> to_python test_settings json_loads_brackets (PyStr (replicate 100000 (CHR ''[''))) =
       Inl RecursionError"
proof -
  have no_str: "\<forall>s. PyDict [(''en'', Some ''hello'')] \<noteq> PyStr s"
    by simp
  have falsy: "try_deserialize json_loads_brackets (PyDict []) = Inr (PyDict [])
               \<and> \<not> truthy (PyDict [])"
    by (simp add: try_deserialize_def HStoreField_to_python_def)
  have caught: "\<forall>err. HStoreField_to_python json_loads_brackets (PyStr ''[[['') = Inl err
                  \<longrightarrow> err = JSONDecodeError"
    by (simp add: HStoreField_to_python_def json_loads_brackets_def)
  have deep: "HStoreField_to_python json_loads_brackets (PyStr (replicate 100000 (CHR ''['')))
                = Inl RecursionError \<and> RecursionError \<noteq> JSONDecodeError"
    by (simp add: HStoreField_to_python_def json_loads_brackets_def)
  from to_python_returns_container [of test_settings json_loads_brackets "PyDict []"]
       to_python_returns_container
         [of test_settings json_loads_brackets "PyDict [(''en'', Some ''hello'')]"]
       to_python_returns_container [of test_settings json_loads_brackets "PyStr ''[[[''"]
       to_python_returns_container
         [of test_settings json_loads_brackets "PyStr (replicate 100000 (CHR ''[''))"]
       no_str falsy caught deep
  show ?thesis by blast
qed

text \<open>
  The string of 100000 opening brackets is not JSON, and \<open>json.loads\<close> gives it up
  with \<open>RecursionError\<close>, which the \<open>except json.JSONDecodeError\<close> of line 111 does
  not catch: \<open>to_python\<close> raises and returns no LocalizedValue.
\<close>

theorem to_python_deep_nesting_counterexample:
  "to_python test_settings json_loads_brackets (PyStr (replicate 100000 (CHR ''[''))) =
     Inl RecursionError"
  by (simp add: to_python_def try_deserialize_def HStoreField_to_python_def
      json_loads_brackets_def)

text \<open>
  C5, as the code has it. For every falsy database value \<open>from_db_value\<close> returns the
  empty LocalizedValue, every configured language None, unless the setting
  \<open>LOCALIZED_FIELDS_EXPERIMENTAL\<close> is true: then it returns None.
\<close>

theorem from_db_value_falsy:
  assumes "\<not> truthy v"
  shows "from_db_value st v =
           (if LOCALIZED_FIELDS_EXPERIMENTAL st then PyNone else LocalizedValue_empty st)
         \<and> LocalizedValue_empty st =
           PyLocalizedValue (map (\<lambda>(lang_code, _). (lang_code, None)) (LANGUAGES st))"
  using assms by (simp add: from_db_value_def LocalizedValue_empty_entries)

theorem from_db_value_falsy_witness:
  "from_db_value test_settings (PyDict []) =
     PyLocalizedValue [(''en'', None), (''ro'', None), (''nl'', None)]"
proof -
  have falsy: "\<not> truthy (PyDict [])" by simp
  from from_db_value_falsy [OF falsy, of test_settings] show ?thesis
    by (simp add: test_settings_def)
qed

text \<open>
  With \<open>LOCALIZED_FIELDS_EXPERIMENTAL\<close> set, the falsy database value None comes back
  as None, which is no LocalizedValue.
\<close>

theorem from_db_value_falsy_counterexample:
  "\<not> truthy PyNone
   \<and> from_db_value experimental_settings PyNone = PyNone
   \<and> from_db_value experimental_settings PyNone \<noteq> LocalizedValue_empty experimental_settings
   \<and> \<not> isinstance_LocalizedValue (from_db_value experimental_settings PyNone)"
  by (simp add: from_db_value_def experimental_settings_def LocalizedValue_empty_def
      LocalizedValue_def)

text \<open>
  C9, as the code has it. \<open>from_db_value\<close> hands a truthy database value that is neither
  a dict nor a list back unchanged; and for a list that is not empty it returns a list of
  the same length and order, in which each dict element is wrapped in a LocalizedValue
  and every other element, None too, is unchanged.
\<close>

theorem from_db_value_flat_and_list:
  "(truthy v \<and> \<not> isinstance_dict v \<and> \<not> isinstance_list v \<longrightarrow> from_db_value st v = v)
   \<and> (xs \<noteq> [] \<longrightarrow>
        (\<exists>ys. from_db_value st (PyList xs) = PyList ys
            \<and> length ys = length xs
            \<and> (\<forall>i < length xs.
                  ys ! i = (if isinstance_dict (xs ! i) then LocalizedValue st (xs ! i)
                            else xs ! i))))"
proof (intro conjI impI)
  assume "truthy v \<and> \<not> isinstance_dict v \<and> \<not> isinstance_list v"
  then show "from_db_value st v = v"
    by (cases v) (simp_all add: from_db_value_def)
next
  assume "xs \<noteq> []"
  then have "from_db_value st (PyList xs) =
     PyList (map (\<lambda>inner_val. if isinstance_dict inner_val then LocalizedValue st inner_val
                              else inner_val) xs)"
    by (rule from_db_value_nonempty_list)
  then show "\<exists>ys. from_db_value st (PyList xs) = PyList ys
            \<and> length ys = length xs
            \<and> (\<forall>i < length xs.
                  ys ! i = (if isinstance_dict (xs ! i) then LocalizedValue st (xs ! i)
                            else xs ! i))"
    by simp
qed

theorem from_db_value_flat_and_list_witness:
  "from_db_value test_settings (PyStr ''hello'') = PyStr ''hello''
   \<and> (\<exists>ys. from_db_value test_settings
              (PyList [PyNone, PyDict [(''en'', Some ''a'')], PyStr ''x'']) = PyList ys
          \<and> length ys = 3
          \<and> ys ! 0 = PyNone
          \<and> ys ! 1 = LocalizedValue test_settings (PyDict [(''en'', Some ''a'')])
          \<and> ys ! 2 = PyStr ''x'')"
proof -
  have flat: "truthy (PyStr ''hello'') \<and> \<not> isinstance_dict (PyStr ''hello'')
              \<and> \<not> isinstance_list (PyStr ''hello'')"
    by simp
  have nonempty: "[PyNone, PyDict [(''en'', Some ''a'')], PyStr ''x''] \<noteq> []"
    by simp
  from from_db_value_flat_and_list
         [of "PyStr ''hello''" test_settings
             "[PyNone, PyDict [(''en'', Some ''a'')], PyStr ''x'']"]
       flat nonempty
  show ?thesis
    by (auto simp: nth_Cons')
qed

text \<open>
  The empty list is a list database value, but falsy: it is handled as an absent value
  and what comes back is the empty LocalizedValue, not a list of length 0.
\<close>

theorem from_db_value_empty_list_counterexample:
  "isinstance_list (PyList [])
   \<and> from_db_value test_settings (PyList []) =
       PyLocalizedValue [(''en'', None), (''ro'', None), (''nl'', None)]
   \<and> \<not> isinstance_list (from_db_value test_settings (PyList []))"
  by (simp add: from_db_value_def test_settings_def LocalizedValue_empty_def
      LocalizedValue_def dict_get_def)

end
